theory Spec2Isabelle
  imports Main
begin

section \<open>Python string primitives used by the server\<close>

text \<open>
  Request lines and header blocks are decoded with \<open>iso-8859-1\<close>, so every character of a
  decoded string is one byte; \<^typ>\<open>char\<close> is exactly that. \<open>str.lower()\<close> on such a
  character maps \<open>A..Z\<close> and the Latin-1 capitals \<open>0xC0..0xDE\<close> (without the
  multiplication sign \<open>0xD7\<close>) to the character 32 positions later.
\<close>

definition lower_char :: "char \<Rightarrow> char" where
  "lower_char c =
     (let n = (of_char c :: nat)
      in if (65 \<le> n \<and> n \<le> 90) \<or> (192 \<le> n \<and> n \<le> 222 \<and> n \<noteq> 215)
         then char_of (n + 32) else c)"

definition lower :: "string \<Rightarrow> string" where
  "lower s = map lower_char s"


text \<open>
  \<open>str.isspace()\<close> on a Latin-1 character: the ASCII controls \<open>0x09..0x0D\<close> and
  \<open>0x1C..0x1F\<close>, the space, NEL \<open>0x85\<close> and the no-break space \<open>0xA0\<close>.
\<close>

definition isspace :: "char \<Rightarrow> bool" where
  "isspace c =
     (let n = (of_char c :: nat)
      in (9 \<le> n \<and> n \<le> 13) \<or> (28 \<le> n \<and> n \<le> 32) \<or> n = 133 \<or> n = 160)"

definition CR :: char where "CR = CHR 0x0D"
definition LF :: char where "LF = CHR 0x0A"
definition TAB :: char where "TAB = CHR 0x09"
definition crlf :: string where "crlf = [CR, LF]"

text \<open>\<open>s.split()\<close>: the maximal runs of non-whitespace characters, in order.\<close>

fun words_acc :: "string \<Rightarrow> string \<Rightarrow> string list" where
  "words_acc w [] = (if w = [] then [] else [w])"
| "words_acc w (c # cs) =
     (if isspace c then (if w = [] then words_acc [] cs else w # words_acc [] cs)
      else words_acc (w @ [c]) cs)"

definition split_ws :: "string \<Rightarrow> string list" where
  "split_ws s = words_acc [] s"

text \<open>\<open>s.split(sep)\<close> for a one-character separator: never empty, empty fields kept.\<close>

fun split_on :: "char \<Rightarrow> string \<Rightarrow> string list" where
  "split_on sep [] = [[]]"
| "split_on sep (c # cs) =
     (if c = sep then [] # split_on sep cs
      else (case split_on sep cs of [] \<Rightarrow> [[c]] | w # ws \<Rightarrow> (c # w) # ws))"

text \<open>\<open>s.split(sep, 1)\<close>: split at the first separator only.\<close>

definition split_once :: "char \<Rightarrow> string \<Rightarrow> string list" where
  "split_once sep s =
     (if sep \<in> set s
      then [takeWhile (\<lambda>c. c \<noteq> sep) s, tl (dropWhile (\<lambda>c. c \<noteq> sep) s)]
      else [s])"

text \<open>\<open>s.split(None, 1)\<close>: the first word and the rest after the whitespace that follows it.\<close>

definition split_ws_once :: "string \<Rightarrow> string list" where
  "split_ws_once s =
     (let t = dropWhile isspace s;
          w = takeWhile (\<lambda>c. \<not> isspace c) t;
          r = dropWhile isspace (dropWhile (\<lambda>c. \<not> isspace c) t)
      in if w = [] then [] else if r = [] then [w] else [w, r])"

definition startswith :: "string \<Rightarrow> string \<Rightarrow> bool" where
  "startswith s p = (take (length p) s = p)"

definition rstrip_chars :: "string \<Rightarrow> string \<Rightarrow> string" where
  "rstrip_chars cs s = rev (dropWhile (\<lambda>c. c \<in> set cs) (rev s))"

definition lstrip_chars :: "string \<Rightarrow> string \<Rightarrow> string" where
  "lstrip_chars cs s = dropWhile (\<lambda>c. c \<in> set cs) s"

definition strip :: "string \<Rightarrow> string" where
  "strip s = rev (dropWhile isspace (rev (dropWhile isspace s)))"

text \<open>Python compares strings by code point, lexicographically.\<close>

fun str_le :: "string \<Rightarrow> string \<Rightarrow> bool" where
  "str_le [] t = True"
| "str_le (a # s) [] = False"
| "str_le (a # s) (b # t) = ((of_char a :: nat) < of_char b \<or> (a = b \<and> str_le s t))"

definition str_ge :: "string \<Rightarrow> string \<Rightarrow> bool" where
  "str_ge s t = str_le t s"

text \<open>Tuples of two integers compare lexicographically: \<open>(a, b) >= (c, d)\<close>.\<close>

definition tuple_ge :: "int \<times> int \<Rightarrow> int \<times> int \<Rightarrow> bool" where
  "tuple_ge x y = (fst x > fst y \<or> (fst x = fst y \<and> snd x \<ge> snd y))"

subsection \<open>Integers and text\<close>

definition is_digit :: "char \<Rightarrow> bool" where
  "is_digit c = (let n = (of_char c :: nat) in 48 \<le> n \<and> n \<le> 57)"

definition digit_val :: "char \<Rightarrow> nat" where
  "digit_val c = of_char c - 48"

definition dec_value :: "string \<Rightarrow> nat" where
  "dec_value s = foldl (\<lambda>a c. 10 * a + digit_val c) 0 s"

text \<open>
  The shape \<open>int()\<close> accepts after the sign: decimal digits, with single underscores
  allowed between two digits only.
\<close>

fun digits_us :: "string \<Rightarrow> bool" where
  "digits_us [] = False"
| "digits_us [c] = is_digit c"
| "digits_us (c # d # s) =
     (is_digit c \<and> (if d = CHR ''_'' then digits_us s else digits_us (d # s)))"

text \<open>
  \<open>int(s)\<close> for a string: surrounding whitespace is dropped, one sign is allowed, and the
  interpreter refuses more than \<open>sys.get_int_max_str_digits()\<close> digits when that setting
  \<open>lim\<close> is not zero (leading zeros count). \<open>None\<close> stands for \<open>ValueError\<close>.
\<close>

definition py_int :: "nat \<Rightarrow> string \<Rightarrow> int option" where
  "py_int lim s =
     (let t = strip s;
          neg = (t \<noteq> [] \<and> hd t = CHR ''-'');
          body = (if t \<noteq> [] \<and> (hd t = CHR ''-'' \<or> hd t = CHR ''+'') then tl t else t);
          ds = filter is_digit body
      in if \<not> digits_us body then None
         else if lim > 0 \<and> length ds > lim then None
         else Some (if neg then - int (dec_value ds) else int (dec_value ds)))"

definition digit_char :: "nat \<Rightarrow> char" where
  "digit_char n = char_of (48 + n)"

fun dec_str :: "nat \<Rightarrow> string" where
  "dec_str n = (if n < 10 then [digit_char n] else dec_str (n div 10) @ [digit_char (n mod 10)])"

declare dec_str.simps [simp del]

text \<open>The conversion \<open>%d\<close>.\<close>

definition str_of_int :: "int \<Rightarrow> string" where
  "str_of_int i = (if i < 0 then CHR ''-'' # dec_str (nat (- i)) else dec_str (nat i))"

definition hex_char :: "nat \<Rightarrow> char" where
  "hex_char n = (if n < 10 then char_of (48 + n) else char_of (87 + n))"

fun hex_str :: "nat \<Rightarrow> string" where
  "hex_str n = (if n < 16 then [hex_char n] else hex_str (n div 16) @ [hex_char (n mod 16)])"

declare hex_str.simps [simp del]

section \<open>Response header collection (mywsgiref/headers.py)\<close>

text \<open>
  \<open>Headers\<close> wraps one Python list of \<open>(name, value)\<close> tuples, \<open>self._headers\<close>.
  Each method below takes that list and returns the list after the call.
\<close>

type_synonym headers = "(string \<times> string) list"

definition delitem :: "headers \<Rightarrow> string \<Rightarrow> headers" where
  "delitem hs name = (let name = lower name in [kv \<leftarrow> hs. lower (fst kv) \<noteq> name])"

definition setitem :: "headers \<Rightarrow> string \<Rightarrow> string \<Rightarrow> headers" where
  "setitem hs name val = delitem hs name @ [(name, val)]"

definition get_all :: "headers \<Rightarrow> string \<Rightarrow> string list" where
  "get_all hs name = (let name = lower name in map snd [kv \<leftarrow> hs. lower (fst kv) = name])"

fun get_first :: "headers \<Rightarrow> string \<Rightarrow> string option" where
  "get_first [] name = None"
| "get_first ((k, v) # hs) name = (if lower k = name then Some v else get_first hs name)"

definition get :: "headers \<Rightarrow> string \<Rightarrow> string option" where
  "get hs name = get_first hs (lower name)"

definition has_key :: "headers \<Rightarrow> string \<Rightarrow> bool" where
  "has_key hs name = (get hs name \<noteq> None)"

section \<open>Exceptions, status codes and the log\<close>

datatype exn =
    AttributeError string
  | ValueError
  | IndexError
  | AssertionError string
  | TypeError string
  | LineTooLong string
  | HTTPException string
  | ConnectionError
  | AppError string

text \<open>
  The members of \<open>HTTPStatus\<close> (myhttp/__init__.py) are integers; \<open>responses\<close> is the
  class dictionary from a member to its phrase and description.
\<close>

definition CONTINUE :: int where "CONTINUE = 100"
definition BAD_REQUEST :: int where "BAD_REQUEST = 400"
definition REQUEST_URI_TOO_LONG :: int where "REQUEST_URI_TOO_LONG = 414"
definition REQUEST_HEADER_FILEDS_TOO_LARGE :: int where "REQUEST_HEADER_FILEDS_TOO_LARGE = 431"
definition HTTP_VERSION_NOT_SUPPORTED :: int where "HTTP_VERSION_NOT_SUPPORTED = 505"

definition responses :: "int \<Rightarrow> (string \<times> string) option" where
  "responses code =
     (if code = 100 then Some (''Continue'', ''Request received, please continue'')
      else if code = 400 then Some (''Bad Request'', ''Bad request syntax or unsupported method'')
      else if code = 414 then Some (''Request-URI Too Long'', ''URI is too Long'')
      else if code = 431 then Some (''Request Header Fields Too Large'',
        ''The server is unwilling to process the request because its header fields are too large'')
      else if code = 505 then Some (''HTTP Version Not Supported'', ''Cannot fulfill request'')
      else None)"

text \<open>
  A line of the log is kept as the format string with its arguments, as \<open>log_message\<close>
  receives them. A message built with one \<open>%r\<close> or \<open>%s\<close> conversion is kept as the
  pair of its format and its argument (\<open>Percent\<close>).
\<close>

datatype log_arg = IntArg int | StrArg string | Percent string string

type_synonym log_line = "string \<times> log_arg list"

section \<open>The request handler (myhttp/http_server.py)\<close>

text \<open>
  The handler object with the two ends of its connection: \<open>rfile\<close> holds the bytes the
  client sends that have not been read yet, \<open>wfile\<close> the bytes written to the socket so
  far (the writer is unbuffered, \<open>wbufsize = 0\<close>), and \<open>stderr\<close> the log. An attribute
  that may be missing (\<open>hasattr\<close>) is an option. \<open>version_string\<close> and
  \<open>date_time_string\<close> stand for the results of the methods of these names, which read the
  interpreter's version and the clock.
\<close>

record handler =
  rfile :: string
  wfile :: string
  stderr :: "log_line list"
  protocol_version :: string
  int_max_str_digits :: nat
  version_string :: string
  date_time_string :: string
  passthrough_errors :: bool
  close_connection :: bool
  raw_requestline :: string
  requestline :: string
  request_version :: string
  command :: "string option"
  path :: string
  headers :: headers
  headers_buffer :: "string list option"

definition default_request_version :: string where
  "default_request_version = ''HTTP/0.9''"

definition log_message :: "string \<Rightarrow> log_arg list \<Rightarrow> handler \<Rightarrow> handler" where
  "log_message format args h = h\<lparr>stderr := stderr h @ [(format, args)]\<rparr>"

definition log_error :: "string \<Rightarrow> log_arg list \<Rightarrow> handler \<Rightarrow> handler" where
  "log_error format args h = log_message format args h"

definition log_request :: "int \<Rightarrow> handler \<Rightarrow> handler" where
  "log_request code h =
     log_message ''\"%s\" %s %s'' [StrArg (requestline h), StrArg (str_of_int code), StrArg ''-''] h"

text \<open>\<open>send_error\<close>: the body of the method ends with the call of \<open>log_error\<close>.\<close>

definition send_error :: "int \<Rightarrow> log_arg option \<Rightarrow> string option \<Rightarrow> handler \<Rightarrow> handler" where
  "send_error code message explain h =
     (let (shortmsg, longmsg) = (case responses code of Some p \<Rightarrow> p | None \<Rightarrow> (''???'', ''???''));
          message = (case message of None \<Rightarrow> StrArg shortmsg | Some m \<Rightarrow> m);
          explain = (case explain of None \<Rightarrow> longmsg | Some e \<Rightarrow> e)
      in log_error ''code %d, message %s'' [IntArg code, message] h)"

definition send_response_only :: "int \<Rightarrow> string option \<Rightarrow> handler \<Rightarrow> handler" where
  "send_response_only code message h =
     (if request_version h \<noteq> ''HTTP/0.9'' then
        (let message = (case message of
                          None \<Rightarrow> (case responses code of Some p \<Rightarrow> fst p | None \<Rightarrow> [])
                        | Some m \<Rightarrow> m);
             buf = (case headers_buffer h of None \<Rightarrow> [] | Some b \<Rightarrow> b)
         in h\<lparr>headers_buffer :=
               Some (buf @ [protocol_version h @ '' '' @ str_of_int code @ '' '' @ message @ crlf])\<rparr>)
      else h)"

definition send_header :: "string \<Rightarrow> string \<Rightarrow> handler \<Rightarrow> handler" where
  "send_header keyword val h =
     (let h1 = (if request_version h \<noteq> ''HTTP/0.9'' then
                  (let buf = (case headers_buffer h of None \<Rightarrow> [] | Some b \<Rightarrow> b)
                   in h\<lparr>headers_buffer := Some (buf @ [keyword @ '': '' @ val @ crlf])\<rparr>)
                else h)
      in if lower keyword = ''connection'' then
           (if lower val = ''close'' then h1\<lparr>close_connection := True\<rparr>
            else if lower val = ''keep-alive'' then h1\<lparr>close_connection := False\<rparr>
            else h1)
         else h1)"

definition flush_headers :: "handler \<Rightarrow> handler" where
  "flush_headers h =
     (case headers_buffer h of
        None \<Rightarrow> h
      | Some b \<Rightarrow> h\<lparr>wfile := wfile h @ concat b, headers_buffer := Some []\<rparr>)"

text \<open>
  \<open>end_headers\<close> appends to \<open>self._headers_buffer\<close> without asking whether the attribute
  exists, so it raises \<open>AttributeError\<close> when nothing was buffered before. A method that
  can raise returns the exception, if any, beside the handler as the exception leaves it.
\<close>

definition end_headers :: "handler \<Rightarrow> exn option \<times> handler" where
  "end_headers h =
     (if request_version h \<noteq> ''HTTP/0.9'' then
        (case headers_buffer h of
           None \<Rightarrow> (Some (AttributeError ''_headers_buffer''), h)
         | Some b \<Rightarrow> (None, flush_headers (h\<lparr>headers_buffer := Some (b @ [crlf])\<rparr>)))
      else (None, h))"

definition send_response :: "int \<Rightarrow> string option \<Rightarrow> handler \<Rightarrow> handler" where
  "send_response code message h =
     send_header ''Date'' (date_time_string h)
       (send_header ''Server'' (version_string h)
         (send_response_only code message (log_request code h)))"

definition handle_expect_100 :: "handler \<Rightarrow> exn option \<times> handler" where
  "handle_expect_100 h = end_headers (send_response_only CONTINUE None h)"

section \<open>Reading the header block (myhttp/http_client.py)\<close>

definition MAXLINE :: nat where "MAXLINE = 65536"
definition MAXHEADERS :: nat where "MAXHEADERS = 100"

text \<open>
  \<open>fp.readline(limit)\<close> on the unread bytes: the bytes up to and including the first line
  feed, at most \<open>limit\<close> of them, and the bytes left unread.
\<close>

fun readline :: "nat \<Rightarrow> string \<Rightarrow> string \<times> string" where
  "readline n [] = ([], [])"
| "readline n (c # cs) =
     (if n = 0 then ([], c # cs)
      else if c = LF then ([c], cs)
      else (case readline (n - 1) cs of (l, r) \<Rightarrow> (c # l, r)))"

text \<open>
  The loop of \<open>_read_headers\<close>, with the list read so far. Each round appends one line, so
  the loop ends at the latest when the list holds more than \<open>_MAXHEADERS\<close> lines.
\<close>

function read_headers_loop :: "string list \<Rightarrow> string \<Rightarrow> (exn + string list) \<times> string" where
  "read_headers_loop hdrs fp =
     (case readline (MAXLINE + 1) fp of
        (line, fp') \<Rightarrow>
          if length line > MAXLINE then (Inl (LineTooLong ''header line''), fp')
          else if length (hdrs @ [line]) > MAXHEADERS
            then (Inl (HTTPException ''got more than 100 headers''), fp')
          else if line = crlf \<or> line = [LF] \<or> line = [] then (Inr (hdrs @ [line]), fp')
          else read_headers_loop (hdrs @ [line]) fp')"
  by pat_completeness auto
termination
  by (relation "measure (\<lambda>(hdrs, fp). Suc MAXHEADERS - length hdrs)") auto

declare read_headers_loop.simps [simp del]

definition read_headers :: "string \<Rightarrow> (exn + string list) \<times> string" where
  "read_headers fp = read_headers_loop [] fp"

text \<open>
  \<open>parse_headers\<close> hands the joined lines to \<open>email.parser.Parser(_class).parsestr\<close>, a
  function of the standard library: it is the parameter \<open>parser\<close>.
\<close>

definition parse_headers :: "(string \<Rightarrow> headers) \<Rightarrow> string \<Rightarrow> (exn + headers) \<times> string" where
  "parse_headers parser fp =
     (case read_headers fp of
        (Inl e, fp') \<Rightarrow> (Inl e, fp')
      | (Inr hdrs, fp') \<Rightarrow> (Inr (parser (concat hdrs)), fp'))"

section \<open>Parsing a request (BaseHTTPRequestHandler.parse\_request)\<close>

text \<open>
  The \<open>try\<close> block of \<open>parse_request\<close> that reads the version token: the pair of
  integers and the text after the slash, or the exception the \<open>except\<close> clause catches.
\<close>

definition parse_version_token :: "nat \<Rightarrow> string \<Rightarrow> exn + ((int \<times> int) \<times> string)" where
  "parse_version_token lim version =
     (if \<not> startswith version ''HTTP/'' then Inl ValueError
      else (case split_once CHR ''/'' version of
              [p, base_version_number] \<Rightarrow>
                (let version_number = split_on CHR ''.'' base_version_number
                 in if length version_number \<noteq> 2 then Inl ValueError
                    else (case (py_int lim (version_number ! 0), py_int lim (version_number ! 1)) of
                            (Some a, Some b) \<Rightarrow> Inr ((a, b), base_version_number)
                          | _ \<Rightarrow> Inl ValueError))
            | _ \<Rightarrow> Inl IndexError))"

text \<open>
  A step of \<open>parse_request\<close> gives \<open>(Inr True, h)\<close> to go on, \<open>(Inr False, h)\<close> where the
  method returns \<open>False\<close>, and \<open>(Inl e, h)\<close> where it raises.
\<close>

definition parse_request_version :: "string list \<Rightarrow> handler \<Rightarrow> (exn + bool) \<times> handler" where
  "parse_request_version words h =
     (if length words \<ge> 3 then
        (let version = last words
         in case parse_version_token (int_max_str_digits h) version of
              Inl e \<Rightarrow>
                (Inr False,
                 send_error BAD_REQUEST (Some (Percent ''Bad request version (%r)'' version)) None h)
            | Inr (version_number, base_version_number) \<Rightarrow>
                (let h1 = (if tuple_ge version_number (1, 1) \<and> str_ge (protocol_version h) ''HTTP/1.1''
                           then h\<lparr>close_connection := False\<rparr> else h)
                 in if tuple_ge version_number (2, 0) then
                      (Inr False,
                       send_error HTTP_VERSION_NOT_SUPPORTED
                         (Some (Percent ''Invalid HTTP version (%s)'' base_version_number)) None h1)
                    else (Inr True, h1\<lparr>request_version := version\<rparr>)))
      else (Inr True, h))"

definition parse_request_words :: "string list \<Rightarrow> handler \<Rightarrow> (exn + bool) \<times> handler" where
  "parse_request_words words h =
     (if \<not> (2 \<le> length words \<and> length words \<le> 3) then
        (Inr False,
         send_error BAD_REQUEST (Some (Percent ''Bad request syntax (%r)'' (requestline h))) None h)
      else
        (let cmd = words ! 0; pth = words ! 1
         in if length words = 2 then
              (let h1 = h\<lparr>close_connection := True\<rparr>
               in if cmd \<noteq> ''GET'' then
                    (Inr False,
                     send_error BAD_REQUEST
                       (Some (Percent ''Bad HTTP/0.9 request type (%r)'' cmd)) None h1)
                  else (Inr True, h1\<lparr>command := Some cmd, path := pth\<rparr>))
            else (Inr True, h\<lparr>command := Some cmd, path := pth\<rparr>)))"

definition parse_request_headers ::
  "(string \<Rightarrow> headers) \<Rightarrow> handler \<Rightarrow> (exn + bool) \<times> handler" where
  "parse_request_headers parser h =
     (case parse_headers parser (rfile h) of
        (Inl (LineTooLong err), fp') \<Rightarrow>
          (Inr False,
           send_error REQUEST_HEADER_FILEDS_TOO_LARGE (Some (StrArg ''Line too long'')) (Some err)
             (h\<lparr>rfile := fp'\<rparr>))
      | (Inl (HTTPException err), fp') \<Rightarrow>
          (Inr False,
           send_error REQUEST_HEADER_FILEDS_TOO_LARGE (Some (StrArg ''Too many headers'')) (Some err)
             (h\<lparr>rfile := fp'\<rparr>))
      | (Inl e, fp') \<Rightarrow> (Inl e, h\<lparr>rfile := fp'\<rparr>)
      | (Inr hs, fp') \<Rightarrow> (Inr True, h\<lparr>rfile := fp', headers := hs\<rparr>))"

text \<open>\<open>self.headers.get(name, "")\<close>.\<close>

definition header_or_empty :: "handler \<Rightarrow> string \<Rightarrow> string" where
  "header_or_empty h name = (case get (headers h) name of None \<Rightarrow> [] | Some v \<Rightarrow> v)"

definition parse_request_connection :: "handler \<Rightarrow> handler" where
  "parse_request_connection h =
     (let conntype = header_or_empty h ''Connection''
      in if lower conntype = ''close'' then h\<lparr>close_connection := True\<rparr>
         else if lower conntype = ''keep-alive'' \<and> str_ge (protocol_version h) ''HTTP/1.1''
           then h\<lparr>close_connection := False\<rparr>
         else h)"

definition parse_request_expect :: "handler \<Rightarrow> (exn + bool) \<times> handler" where
  "parse_request_expect h =
     (let expect = header_or_empty h ''Excpet''
      in if lower expect = ''100-continue'' \<and> str_ge (protocol_version h) ''HTTP/1.1''
            \<and> str_ge (request_version h) ''HTTP/1.1''
         then (case handle_expect_100 h of
                 (Some e, h') \<Rightarrow> (Inl e, h')
               | (None, h') \<Rightarrow> (Inr True, h'))
         else (Inr True, h))"

definition and_then ::
  "(exn + bool) \<times> handler \<Rightarrow> (handler \<Rightarrow> (exn + bool) \<times> handler) \<Rightarrow> (exn + bool) \<times> handler" where
  "and_then r f = (case r of (Inr True, h) \<Rightarrow> f h | _ \<Rightarrow> r)"

definition parse_request :: "(string \<Rightarrow> headers) \<Rightarrow> handler \<Rightarrow> (exn + bool) \<times> handler" where
  "parse_request parser h0 =
     (let h1 = h0\<lparr>command := None, request_version := default_request_version,
                  close_connection := True\<rparr>;
          h2 = h1\<lparr>requestline := rstrip_chars crlf (raw_requestline h1)\<rparr>;
          words = split_ws (requestline h2)
      in if length words = 0 then (Inr False, h2)
         else
           and_then (and_then (and_then (parse_request_version words h2)
             (parse_request_words words))
             (parse_request_headers parser))
             (\<lambda>h. parse_request_expect (parse_request_connection h)))"

section \<open>The application bridge (WSGIRequestHandler.run\_wsgi)\<close>

text \<open>
  The variables of \<open>run_wsgi\<close> that its closures \<open>write\<close>, \<open>start_response\<close> and
  \<open>execute\<close> share.
\<close>

record wsgi_state =
  status_set :: "string option"
  headers_set :: "headers option"
  status_sent :: "string option"
  headers_sent :: "headers option"
  chunk_response :: bool

definition wsgi_init :: wsgi_state where
  "wsgi_init = \<lparr>status_set = None, headers_set = None, status_sent = None,
                 headers_sent = None, chunk_response = False\<rparr>"

text \<open>The truth value of a variable that holds \<open>None\<close> or a list: an empty list is false.\<close>

definition truthy :: "'a list option \<Rightarrow> bool" where
  "truthy v = (case v of None \<Rightarrow> False | Some xs \<Rightarrow> xs \<noteq> [])"

text \<open>
  \<open>WSGIRequestHandler.__getattr__\<close>, which Python calls for a name that neither the
  instance nor its classes define: a name that starts with \<open>do_\<close> gives the method
  \<open>run_wsgi\<close>, any other name is looked up in the base classes again and raises.
\<close>

definition wsgi_getattr :: "string \<Rightarrow> exn + string" where
  "wsgi_getattr name =
     (if startswith name ''do_'' then Inr ''run_wsgi'' else Inl (AttributeError name))"

text \<open>
  An application is seen through what it does to the bridge: the calls it makes while it is
  called, and the calls it makes and the chunks it yields while its result is iterated. An
  exception raised by \<open>start_response\<close> or \<open>write\<close> is taken to leave the application
  uncaught. \<open>ready\<close> is the number of times the selector reports the socket readable when
  the rest of the request is drained.
\<close>

datatype action = StartResponse string headers "exn option" | Write string | Raise exn

datatype step = Do action | Yield string

record app_run =
  on_call :: "action list"
  on_iter :: "step list"
  ready :: nat

definition start_response ::
  "string \<Rightarrow> headers \<Rightarrow> exn option \<Rightarrow> wsgi_state \<Rightarrow> exn + wsgi_state" where
  "start_response status hdrs exc_info st =
     (case exc_info of
        Some e \<Rightarrow>
          (if truthy (headers_sent st) then Inl e
           else Inr (st\<lparr>status_set := Some status, headers_set := Some hdrs\<rparr>))
      | None \<Rightarrow>
          (if truthy (headers_set st) then Inl (AssertionError ''headers already sent'')
           else Inr (st\<lparr>status_set := Some status, headers_set := Some hdrs\<rparr>)))"

text \<open>
  The last two calls of the header part of \<open>write\<close>: the header \<open>Connection: close\<close>,
  then \<open>end_headers\<close>.
\<close>

definition write_connection_close ::
  "wsgi_state \<Rightarrow> handler \<Rightarrow> exn option \<times> wsgi_state \<times> handler" where
  "write_connection_close st h =
     (case end_headers (send_header ''Connection'' ''close'' h) of (e, h') \<Rightarrow> (e, st, h'))"

text \<open>
  The first part of \<open>write\<close>, run while \<open>status_sent\<close> is still \<open>None\<close>: the status line
  and the headers. \<open>meth\<close> is \<open>environ["REQUEST_METHOD"]\<close>. The name the test for chunking
  reads from the handler is \<open>protocal_version\<close>; \<open>and\<close> evaluates it only when the first
  operand is true.
\<close>

definition write_headers ::
  "string option \<Rightarrow> string \<Rightarrow> headers \<Rightarrow> wsgi_state \<times> handler
     \<Rightarrow> exn option \<times> wsgi_state \<times> handler" where
  "write_headers meth status hdrs sh =
     (case sh of (st, h) \<Rightarrow>
       (let st1 = st\<lparr>status_sent := Some status, headers_sent := Some hdrs\<rparr>;
            code_str = (case split_ws_once status of [a, b] \<Rightarrow> a | _ \<Rightarrow> status);
            msg = (case split_ws_once status of [a, b] \<Rightarrow> b | _ \<Rightarrow> [])
        in case py_int (int_max_str_digits h) code_str of
             None \<Rightarrow> (Some ValueError, st1, h)
           | Some code \<Rightarrow>
               (let h1 = send_response code (Some msg) h;
                    h2 = foldl (\<lambda>a kv. send_header (fst kv) (snd kv) a) h1 hdrs;
                    header_keys = map (\<lambda>kv. lower (fst kv)) hdrs
                in if \<not> (''content-length'' \<in> set header_keys \<or> meth = Some ''HEAD''
                          \<or> (100 \<le> code \<and> code < 200) \<or> code = 204 \<or> code = 304)
                   then (case wsgi_getattr ''protocal_version'' of
                           Inl e \<Rightarrow> (Some e, st1, h2)
                         | Inr pv \<Rightarrow>
                             (if str_ge pv ''HTTP/1.1'' then
                                write_connection_close (st1\<lparr>chunk_response := True\<rparr>)
                                  (send_header ''Transfer-Encoding'' ''chunked'' h2)
                              else write_connection_close st1 h2))
                   else write_connection_close st1 h2)))"

text \<open>The second part of \<open>write\<close>: the data, framed as a chunk when \<open>chunk_response\<close> is set.\<close>

definition write_body :: "bool \<Rightarrow> string \<Rightarrow> handler \<Rightarrow> handler" where
  "write_body chunked data h =
     (if data \<noteq> [] then
        h\<lparr>wfile := wfile h @ (if chunked then hex_str (length data) @ crlf else [])
                     @ data @ (if chunked then crlf else [])\<rparr>
      else h)"

text \<open>\<open>write\<close>, the closure of \<open>run_wsgi\<close>.\<close>

definition wsgi_write ::
  "string option \<Rightarrow> string \<Rightarrow> wsgi_state \<times> handler \<Rightarrow> exn option \<times> wsgi_state \<times> handler" where
  "wsgi_write meth data sh =
     (case sh of (st, h) \<Rightarrow>
       (case (status_set st, headers_set st) of
          (Some status, Some hdrs) \<Rightarrow>
            (case status_sent st of
               None \<Rightarrow>
                 (case write_headers meth status hdrs (st, h) of
                    (Some e, st', h') \<Rightarrow> (Some e, st', h')
                  | (None, st', h') \<Rightarrow> (None, st', write_body (chunk_response st') data h'))
             | Some s \<Rightarrow> (None, st, write_body (chunk_response st) data h))
        | _ \<Rightarrow> (Some (AssertionError ''write() before start_response''), st, h)))"

definition run_action ::
  "string option \<Rightarrow> action \<Rightarrow> wsgi_state \<times> handler \<Rightarrow> exn option \<times> wsgi_state \<times> handler" where
  "run_action meth a sh =
     (case a of
        StartResponse status hdrs exc_info \<Rightarrow>
          (case start_response status hdrs exc_info (fst sh) of
             Inl e \<Rightarrow> (Some e, sh)
           | Inr st' \<Rightarrow> (None, st', snd sh))
      | Write data \<Rightarrow> wsgi_write meth data sh
      | Raise e \<Rightarrow> (Some e, sh))"

fun run_actions ::
  "string option \<Rightarrow> action list \<Rightarrow> wsgi_state \<times> handler \<Rightarrow> exn option \<times> wsgi_state \<times> handler" where
  "run_actions meth [] sh = (None, sh)"
| "run_actions meth (a # as) sh =
     (case run_action meth a sh of
        (Some e, sh') \<Rightarrow> (Some e, sh')
      | (None, sh') \<Rightarrow> run_actions meth as sh')"

text \<open>The \<open>for\<close> loop of \<open>execute\<close>: every chunk the iterable yields goes to \<open>write\<close>.\<close>

fun run_steps ::
  "string option \<Rightarrow> step list \<Rightarrow> wsgi_state \<times> handler \<Rightarrow> exn option \<times> wsgi_state \<times> handler" where
  "run_steps meth [] sh = (None, sh)"
| "run_steps meth (x # xs) sh =
     (case (case x of Do a \<Rightarrow> run_action meth a sh | Yield data \<Rightarrow> wsgi_write meth data sh) of
        (Some e, sh') \<Rightarrow> (Some e, sh')
      | (None, sh') \<Rightarrow> run_steps meth xs sh')"

text \<open>
  The loop in the \<open>finally\<close> clause of \<open>execute\<close> that discards what the client still
  sends: reads of at most ten million bytes, until the selector reports nothing to read, a
  read is empty, ten thousand million bytes were read or a thousand reads were made.
\<close>

fun drain :: "nat \<Rightarrow> nat \<Rightarrow> nat \<Rightarrow> string \<Rightarrow> string" where
  "drain n total_size total_reads fp =
     (if n = 0 then fp
      else (let data = take 10000000 fp;
                fp' = drop 10000000 fp;
                total_size' = total_size + length data;
                total_reads' = total_reads + 1
            in if data = [] \<or> total_size' \<ge> 10000000000 \<or> total_reads' \<ge> 1000 then fp'
               else drain (n - 1) total_size' total_reads' fp'))"

declare drain.simps [simp del]

definition execute ::
  "string option \<Rightarrow> app_run \<Rightarrow> wsgi_state \<times> handler \<Rightarrow> exn option \<times> wsgi_state \<times> handler" where
  "execute meth app sh =
     (case run_actions meth (on_call app) sh of
        (Some e, sh1) \<Rightarrow> (Some e, sh1)
      | (None, sh1) \<Rightarrow>
          (case (case run_steps meth (on_iter app) sh1 of
                   (Some e, sh2) \<Rightarrow> (Some e, sh2)
                 | (None, st2, h2) \<Rightarrow>
                     (case (if \<not> truthy (headers_sent st2) then wsgi_write meth [] (st2, h2)
                            else (None, st2, h2)) of
                        (Some e, sh3) \<Rightarrow> (Some e, sh3)
                      | (None, st3, h3) \<Rightarrow>
                          (None, st3,
                           if chunk_response st3 then h3\<lparr>wfile := wfile h3 @ ''0'' @ crlf @ crlf\<rparr>
                           else h3))) of
             (e, st', h') \<Rightarrow> (e, st', h'\<lparr>rfile := drain (ready app) 0 0 (rfile h')\<rparr>)))"

text \<open>
  The fallback application \<open>InternalServerError()\<close>: the exception classes of
  mywerkzeug/exceptions.py define no \<open>__call__\<close>, so calling the instance raises
  \<open>TypeError\<close> before anything else happens.
\<close>

definition InternalServerError :: app_run where
  "InternalServerError =
     \<lparr>on_call = [Raise (TypeError ''InternalServerError object is not callable'')],
      on_iter = [], ready = 0\<rparr>"

text \<open>
  \<open>run_wsgi\<close>. The application is a function of the handler as the request left it, from
  which \<open>make_environ\<close> builds the environment; of the environment only
  \<open>REQUEST_METHOD\<close>, the handler's \<open>command\<close>, is read by the bridge. The exception
  \<open>ConnectionError\<close> stands for the \<open>connection_dropped_errors\<close>.
\<close>

definition run_wsgi :: "(handler \<Rightarrow> app_run) \<Rightarrow> handler \<Rightarrow> exn option \<times> handler" where
  "run_wsgi app h =
     (let h1 = (if strip (lower (header_or_empty h ''Expect'')) = ''100-continue''
                then h\<lparr>wfile := wfile h @ '' HTTP/1.1 100 Continue'' @ crlf @ crlf\<rparr> else h);
          meth = command h1
      in case execute meth (app h1) (wsgi_init, h1) of
           (None, st, h2) \<Rightarrow> (None, h2)
         | (Some e, st, h2) \<Rightarrow>
             (if e = ConnectionError then (None, h2)
              else if passthrough_errors h2 then (Some e, h2)
              else
                (let h3 = (if status_sent st \<noteq> None \<and> chunk_response st
                           then h2\<lparr>close_connection := True\<rparr> else h2);
                     st3 = (if status_sent st = None
                            then st\<lparr>status_set := None, headers_set := None\<rparr> else st)
                 in case execute meth InternalServerError (st3, h3) of
                      (e', st4, h4) \<Rightarrow>
                        (None, h4\<lparr>stderr := stderr h4 @ [(''Error on request:%s'', [])]\<rparr>))))"

section \<open>The request loop (handle\_one\_request, handle)\<close>

text \<open>
  \<open>handle_one_request\<close> of a \<open>WSGIRequestHandler\<close>: the method \<open>do_<command>\<close> is found
  through \<open>__getattr__\<close> and is \<open>run_wsgi\<close>. Reading from \<open>rfile\<close> does not time out here.
\<close>

definition handle_one_request ::
  "(string \<Rightarrow> headers) \<Rightarrow> (handler \<Rightarrow> app_run) \<Rightarrow> handler \<Rightarrow> exn option \<times> handler" where
  "handle_one_request parser app h =
     (case readline 65537 (rfile h) of
        (raw, fp') \<Rightarrow>
          (let h1 = h\<lparr>rfile := fp', raw_requestline := raw\<rparr>
           in if length raw > 65536 then
                (None, send_error REQUEST_URI_TOO_LONG None None
                         (h1\<lparr>requestline := [], request_version := []\<rparr>))
              else if raw = [] then (None, h1\<lparr>close_connection := True\<rparr>)
              else (case parse_request parser h1 of
                      (Inl e, h2) \<Rightarrow> (Some e, h2)
                    | (Inr False, h2) \<Rightarrow> (None, h2)
                    | (Inr True, h2) \<Rightarrow>
                        (case wsgi_getattr (''do_'' @ (case command h2 of None \<Rightarrow> [] | Some c \<Rightarrow> c)) of
                           Inl e \<Rightarrow> (Some e, h2)
                         | Inr m \<Rightarrow> run_wsgi app h2))))"

section \<open>The unread input never grows\<close>

lemma readline_append: "readline n s = (l, r) \<Longrightarrow> l @ r = s"
  by (induction s arbitrary: n l r) (auto split: if_splits prod.splits)

lemma readline_length_le: "length (snd (readline n s)) \<le> length s"
proof -
  obtain l r where lr: "readline n s = (l, r)" by (cases "readline n s")
  from readline_append [OF lr] have "length s = length l + length r" by auto
  with lr show ?thesis by simp
qed

lemma readline_length_less:
  assumes "n > 0" and "s \<noteq> []"
  shows "length (snd (readline n s)) < length s"
proof -
  obtain c cs where s: "s = c # cs" using assms(2) by (cases s) auto
  have "length (snd (readline (n - 1) cs)) \<le> length cs" by (rule readline_length_le)
  then show ?thesis using assms(1) by (auto simp: s split: prod.splits)
qed

lemma read_headers_loop_length: "length (snd (read_headers_loop hs fp)) \<le> length fp"
proof (induction hs fp rule: read_headers_loop.induct)
  case (1 hdrs fp)
  obtain line fp' where r: "readline (MAXLINE + 1) fp = (line, fp')" by (cases "readline (MAXLINE + 1) fp")
  have le: "length fp' \<le> length fp" using readline_length_le [of "MAXLINE + 1" fp] r by simp
  show ?case
    using 1 [OF r [symmetric]] le r
    by (subst read_headers_loop.simps) (auto simp: r)
qed

lemma drain_length: "length (drain n a b fp) \<le> length fp"
proof (induction n a b fp rule: drain.induct)
  case (1 n a b fp)
  show ?case
  proof (cases "n = 0 \<or> take 10000000 fp = [] \<or> a + length (take 10000000 fp) \<ge> 10000000000 \<or> b + 1 \<ge> 1000")
    case True
    then show ?thesis by (subst drain.simps) (auto simp: Let_def)
  next
    case False
    then have "drain n a b fp = drain (n - 1) (a + length (take 10000000 fp)) (b + 1) (drop 10000000 fp)"
      by (subst drain.simps) (simp add: Let_def)
    moreover have "length (drain (n - 1) (a + length (take 10000000 fp)) (b + 1) (drop 10000000 fp))
        \<le> length (drop 10000000 fp)"
      using False by (intro 1) auto
    ultimately show ?thesis by simp
  qed
qed

lemma rfile_log_message [simp]: "rfile (log_message f a h) = rfile h"
  by (simp add: log_message_def)

lemma rfile_send_error [simp]: "rfile (send_error c m e h) = rfile h"
  by (simp add: send_error_def log_error_def Let_def split: prod.splits)

lemma rfile_send_response_only [simp]: "rfile (send_response_only c m h) = rfile h"
  by (simp add: send_response_only_def Let_def)

lemma rfile_send_header [simp]: "rfile (send_header k v h) = rfile h"
  by (simp add: send_header_def Let_def)

lemma rfile_flush_headers [simp]: "rfile (flush_headers h) = rfile h"
  by (simp add: flush_headers_def split: option.splits)

lemma rfile_end_headers [simp]: "rfile (snd (end_headers h)) = rfile h"
  by (simp add: end_headers_def split: option.splits)

lemma rfile_send_response [simp]: "rfile (send_response c m h) = rfile h"
  by (simp add: send_response_def log_request_def)

lemma rfile_handle_expect_100 [simp]: "rfile (snd (handle_expect_100 h)) = rfile h"
  by (simp add: handle_expect_100_def)

lemma rfile_send_headers_fold [simp]:
  "rfile (foldl (\<lambda>a kv. send_header (fst kv) (snd kv) a) h hdrs) = rfile h"
  by (induction hdrs arbitrary: h) simp_all

lemma rfile_write_connection_close:
  "write_connection_close st h = (e, st', h') \<Longrightarrow> rfile h' = rfile h"
proof -
  assume a: "write_connection_close st h = (e, st', h')"
  then have "h' = snd (end_headers (send_header ''Connection'' ''close'' h))"
    by (simp add: write_connection_close_def split: prod.splits)
  then show ?thesis by simp
qed

lemma rfile_write_headers:
  assumes "write_headers meth status hdrs (st, h) = (e, st', h')"
  shows "rfile h' = rfile h"
proof -
  have wcc: "rfile (snd (snd (write_connection_close s (send_header k v g)))) = rfile g"
    "rfile (snd (snd (write_connection_close s g))) = rfile g" for s k v g
    using rfile_write_connection_close [of s "send_header k v g"]
      rfile_write_connection_close [of s g]
    by (metis prod.collapse rfile_send_header)+
  have "rfile (snd (snd (write_headers meth status hdrs (st, h)))) = rfile h"
    by (simp add: write_headers_def Let_def wcc split: option.splits sum.splits)
  with assms show ?thesis by simp
qed

lemma rfile_write_body [simp]: "rfile (write_body c d h) = rfile h"
  by (simp add: write_body_def)

lemma rfile_wsgi_write:
  assumes "wsgi_write meth d (st, h) = (e, st', h')"
  shows "rfile h' = rfile h"
proof (cases "status_set st")
  case None
  with assms show ?thesis by (simp add: wsgi_write_def)
next
  case (Some status)
  note s = this
  show ?thesis
  proof (cases "headers_set st")
    case None
    with assms s show ?thesis by (simp add: wsgi_write_def)
  next
    case (Some hdrs)
    note hs = this
    show ?thesis
    proof (cases "status_sent st")
      case (Some x)
      with assms s hs show ?thesis by (auto simp: wsgi_write_def)
    next
      case None
      obtain e1 st1 h1 where w: "write_headers meth status hdrs (st, h) = (e1, st1, h1)"
        by (cases "write_headers meth status hdrs (st, h)") auto
      have "rfile h1 = rfile h" by (rule rfile_write_headers [OF w])
      with assms s hs None w show ?thesis
        by (cases e1) (auto simp: wsgi_write_def)
    qed
  qed
qed

lemma rfile_run_action:
  assumes "run_action meth a (st, h) = (e, st', h')"
  shows "rfile h' = rfile h"
proof (cases a)
  case (StartResponse s hs x)
  with assms show ?thesis by (auto simp: run_action_def split: sum.splits)
next
  case (Write d)
  with assms show ?thesis by (auto simp: run_action_def dest: rfile_wsgi_write)
next
  case (Raise x)
  with assms show ?thesis by (auto simp: run_action_def)
qed

lemma rfile_run_actions:
  "run_actions meth as (st, h) = (e, st', h') \<Longrightarrow> rfile h' = rfile h"
proof (induction as arbitrary: st h)
  case Nil
  then show ?case by simp
next
  case (Cons a as)
  obtain e1 st1 h1 where r: "run_action meth a (st, h) = (e1, st1, h1)"
    by (cases "run_action meth a (st, h)") auto
  have eq: "rfile h1 = rfile h" by (rule rfile_run_action [OF r])
  show ?case
  proof (cases e1)
    case None
    with Cons.prems r have "run_actions meth as (st1, h1) = (e, st', h')" by simp
    from Cons.IH [OF this] eq show ?thesis by simp
  next
    case (Some x)
    with Cons.prems r eq show ?thesis by simp
  qed
qed

lemma rfile_run_steps:
  "run_steps meth xs (st, h) = (e, st', h') \<Longrightarrow> rfile h' = rfile h"
proof (induction xs arbitrary: st h)
  case Nil
  then show ?case by simp
next
  case (Cons x xs)
  let ?r = "case x of Do a \<Rightarrow> run_action meth a (st, h) | Yield data \<Rightarrow> wsgi_write meth data (st, h)"
  obtain e1 st1 h1 where r: "?r = (e1, st1, h1)" by (cases ?r) auto
  have eq: "rfile h1 = rfile h"
    using r by (cases x) (auto dest: rfile_run_action rfile_wsgi_write)
  show ?case
  proof (cases e1)
    case None
    with Cons.prems r have "run_steps meth xs (st1, h1) = (e, st', h')" by simp
    from Cons.IH [OF this] eq show ?thesis by simp
  next
    case (Some y)
    with Cons.prems r eq show ?thesis by simp
  qed
qed

lemma rfile_execute:
  assumes "execute meth app (st, h) = (e, st', h')"
  shows "length (rfile h') \<le> length (rfile h)"
proof -
  obtain e1 st1 h1 where c: "run_actions meth (on_call app) (st, h) = (e1, st1, h1)"
    by (cases "run_actions meth (on_call app) (st, h)") auto
  have eq1: "rfile h1 = rfile h" by (rule rfile_run_actions [OF c])
  show ?thesis
  proof (cases e1)
    case (Some x)
    with assms c eq1 show ?thesis by (simp add: execute_def)
  next
    case None
    obtain e2 st2 h2 where i: "run_steps meth (on_iter app) (st1, h1) = (e2, st2, h2)"
      by (cases "run_steps meth (on_iter app) (st1, h1)") auto
    have eq2: "rfile h2 = rfile h1" by (rule rfile_run_steps [OF i])
    obtain e3 st3 h3 where w: "wsgi_write meth [] (st2, h2) = (e3, st3, h3)"
      by (cases "wsgi_write meth [] (st2, h2)") auto
    have eq3: "rfile h3 = rfile h2" by (rule rfile_wsgi_write [OF w])
    have "rfile h' = drain (ready app) 0 0 (rfile h)"
      using assms c None i w eq1 eq2 eq3
      by (cases e2; cases e3) (auto simp: execute_def split: if_splits)
    then show ?thesis by (simp add: drain_length)
  qed
qed


lemma rfile_run_wsgi:
  assumes "run_wsgi app h = (e, h')"
  shows "length (rfile h') \<le> length (rfile h)"
proof -
  define h1 where "h1 = (if strip (lower (header_or_empty h ''Expect'')) = ''100-continue''
                then h\<lparr>wfile := wfile h @ '' HTTP/1.1 100 Continue'' @ crlf @ crlf\<rparr> else h)"
  have r1: "rfile h1 = rfile h" by (simp add: h1_def)
  obtain e2 st2 h2 where x: "execute (command h1) (app h1) (wsgi_init, h1) = (e2, st2, h2)"
    by (cases "execute (command h1) (app h1) (wsgi_init, h1)") auto
  have r2: "length (rfile h2) \<le> length (rfile h)" using rfile_execute [OF x] r1 by simp
  show ?thesis
    using assms x r2
    by (cases e2)
      (auto simp: run_wsgi_def Let_def h1_def [symmetric] split: if_splits prod.splits
        dest!: rfile_execute)
qed

lemma rfile_parse_request_version:
  "parse_request_version ws h = (r, h') \<Longrightarrow> rfile h' = rfile h"
  by (auto simp: parse_request_version_def Let_def split: if_splits sum.splits prod.splits)

lemma rfile_parse_request_words:
  "parse_request_words ws h = (r, h') \<Longrightarrow> rfile h' = rfile h"
  by (auto simp: parse_request_words_def Let_def split: if_splits)

lemma rfile_parse_request_headers:
  assumes "parse_request_headers parser h = (r, h')"
  shows "length (rfile h') \<le> length (rfile h)"
proof -
  obtain x fp' where p: "read_headers (rfile h) = (x, fp')" by (cases "read_headers (rfile h)")
  have "length fp' \<le> length (rfile h)"
    using read_headers_loop_length [of "[]" "rfile h"] p by (simp add: read_headers_def)
  moreover have "rfile h' = fp'"
    using assms p
    by (auto simp: parse_request_headers_def parse_headers_def split: sum.splits exn.splits)
  ultimately show ?thesis by simp
qed

lemma rfile_parse_request_connection [simp]: "rfile (parse_request_connection h) = rfile h"
  by (simp add: parse_request_connection_def Let_def)

lemma rfile_parse_request_expect:
  "parse_request_expect h = (r, h') \<Longrightarrow> rfile h' = rfile h"
  by (auto simp: parse_request_expect_def Let_def split: if_splits prod.splits option.splits)
     (metis rfile_handle_expect_100 snd_conv)+

lemma rfile_parse_request:
  assumes "parse_request parser h = (r, h')"
  shows "length (rfile h') \<le> length (rfile h)"
proof -
  define h2 where "h2 = (h\<lparr>command := None, request_version := default_request_version,
                  close_connection := True\<rparr>)\<lparr>requestline := rstrip_chars crlf (raw_requestline h)\<rparr>"
  define ws where "ws = split_ws (requestline h2)"
  have r2: "rfile h2 = rfile h" by (simp add: h2_def)
  obtain a ha where v: "parse_request_version ws h2 = (a, ha)" by (cases "parse_request_version ws h2")
  obtain b hb where w: "parse_request_words ws ha = (b, hb)" by (cases "parse_request_words ws ha")
  obtain c hc where p: "parse_request_headers parser hb = (c, hc)" by (cases "parse_request_headers parser hb")
  obtain d hd where x: "parse_request_expect (parse_request_connection hc) = (d, hd)"
    by (cases "parse_request_expect (parse_request_connection hc)")
  note ra = rfile_parse_request_version [OF v]
  note rb = rfile_parse_request_words [OF w]
  note rc = rfile_parse_request_headers [OF p]
  have rd: "rfile hd = rfile hc" using rfile_parse_request_expect [OF x] by simp
  have "h' = h2 \<or> h' = ha \<or> h' = hb \<or> h' = hc \<or> h' = hd"
    using assms v w p x
    by (auto simp: parse_request_def Let_def h2_def [symmetric] ws_def [symmetric] and_then_def
        split: if_splits sum.splits bool.splits)
  then show ?thesis using r2 ra rb rc rd by auto
qed

lemma handle_one_request_progress:
  assumes "handle_one_request parser app h = (e, h')"
  shows "close_connection h' \<or> length (rfile h') < length (rfile h)"
proof (cases "rfile h = []")
  case True
  with assms show ?thesis by (auto simp: handle_one_request_def)
next
  case False
  obtain raw fp' where rl: "readline 65537 (rfile h) = (raw, fp')" by (cases "readline 65537 (rfile h)")
  have lt: "length fp' < length (rfile h)"
    using readline_length_less [of 65537 "rfile h"] False rl by simp
  define h1 where "h1 = h\<lparr>rfile := fp', raw_requestline := raw\<rparr>"
  have r1: "rfile h1 = fp'" by (simp add: h1_def)
  obtain r h2 where p: "parse_request parser h1 = (r, h2)" by (cases "parse_request parser h1")
  note r2 = rfile_parse_request [OF p]
  obtain e3 h3 where w: "run_wsgi app h2 = (e3, h3)" by (cases "run_wsgi app h2")
  note r3 = rfile_run_wsgi [OF w]
  have "close_connection h' \<or> rfile h' = fp' \<or> h' = h2 \<or> h' = h3"
    using assms rl p w
    by (auto simp: handle_one_request_def Let_def h1_def [symmetric] r1
        split: if_splits sum.splits bool.splits)
  then show ?thesis using lt r1 r2 r3 by auto
qed


section \<open>The loop of handle\<close>

text \<open>
  The \<open>while\<close> loop of \<open>BaseHTTPRequestHandler.handle\<close>. It ends on every finite input:
  a round that leaves \<open>close_connection\<close> false has read at least one byte.
\<close>

function handle_loop ::
  "(string \<Rightarrow> headers) \<Rightarrow> (handler \<Rightarrow> app_run) \<Rightarrow> handler \<Rightarrow> exn option \<times> handler" where
  "handle_loop parser app h =
     (if close_connection h then (None, h)
      else (case handle_one_request parser app h of
              (Some e, h') \<Rightarrow> (Some e, h')
            | (None, h') \<Rightarrow> handle_loop parser app h'))"
  by pat_completeness auto
termination
proof (relation "measure (\<lambda>(parser, app, h). if close_connection h then 0 else Suc (length (rfile h)))",
    goal_cases)
  case 1
  show ?case by simp
next
  case (2 parser app h x y)
  then have "handle_one_request parser app h = (None, y)" by simp
  from handle_one_request_progress [OF this] 2(1) show ?case by auto
qed

declare handle_loop.simps [simp del]

definition handle_base ::
  "(string \<Rightarrow> headers) \<Rightarrow> (handler \<Rightarrow> app_run) \<Rightarrow> handler \<Rightarrow> exn option \<times> handler" where
  "handle_base parser app h =
     (case handle_one_request parser app (h\<lparr>close_connection := True\<rparr>) of
        (Some e, h') \<Rightarrow> (Some e, h')
      | (None, h') \<Rightarrow> handle_loop parser app h')"

text \<open>
  \<open>WSGIRequestHandler.handle\<close>: a dropped connection is ignored, any other exception is
  raised again (no TLS context is configured).
\<close>

definition handle ::
  "(string \<Rightarrow> headers) \<Rightarrow> (handler \<Rightarrow> app_run) \<Rightarrow> handler \<Rightarrow> exn option \<times> handler" where
  "handle parser app h =
     (case handle_base parser app h of
        (Some e, h') \<Rightarrow> (if e = ConnectionError then (None, h') else (Some e, h'))
      | (None, h') \<Rightarrow> (None, h'))"

section \<open>A reading of the header text\<close>

text \<open>
  \<open>email.parser\<close> belongs to the standard library, and the definitions above take it as
  the parameter \<open>parser\<close>. For the examples, \<open>header_lines\<close> reads header text the way that
  parser does on well-formed input: each line up to the first blank one is split at its first
  colon, blanks and tabs after the colon and the line end are dropped, and a line that starts
  with a blank or a tab continues the value before it. 
\<close>

fun split_lines :: "string \<Rightarrow> string \<Rightarrow> string list" where
  "split_lines cur [] = (if cur = [] then [] else [cur])"
| "split_lines cur (c # cs) =
     (if c = LF then (cur @ [c]) # split_lines [] cs else split_lines (cur @ [c]) cs)"

definition header_pair :: "string \<Rightarrow> string \<times> string" where
  "header_pair line =
     (takeWhile (\<lambda>c. c \<noteq> CHR '':'') line,
      lstrip_chars [CHR '' '', TAB] (tl (dropWhile (\<lambda>c. c \<noteq> CHR '':'') line)))"

fun header_fold :: "headers \<Rightarrow> string list \<Rightarrow> headers" where
  "header_fold acc [] = acc"
| "header_fold acc (l # ls) =
     (if l = crlf \<or> l = [LF] then acc
      else if hd l = CHR '' '' \<or> hd l = TAB then
        (case acc of
           [] \<Rightarrow> header_fold acc ls
         | _ \<Rightarrow> header_fold (butlast acc @ [(fst (last acc), snd (last acc) @ l)]) ls)
      else if CHR '':'' \<in> set l then header_fold (acc @ [header_pair l]) ls
      else acc)"

definition header_lines :: "string \<Rightarrow> headers" where
  "header_lines text =
     map (\<lambda>kv. (fst kv, rstrip_chars crlf (snd kv))) (header_fold [] (split_lines [] text))"

section \<open>Handlers and applications for the examples\<close>

text \<open>
  A handler as \<open>setup\<close> leaves it, of a server whose handler class has the protocol version
  \<open>pv\<close>, on a connection where the client sends \<open>input\<close>. The interpreter's limit on
  the digits of an integer literal has its default, 4300.
\<close>

definition new_handler :: "string \<Rightarrow> string \<Rightarrow> handler" where
  "new_handler pv input =
     \<lparr>rfile = input, wfile = [], stderr = [], protocol_version = pv, int_max_str_digits = 4300,
      version_string = ''Mywerkzeug/1.0 Python/3.12'',
      date_time_string = ''Thu, 01 Jan 2026 00:00:00 GMT'',
      passthrough_errors = False, close_connection = True, raw_requestline = [],
      requestline = [], request_version = [], command = None, path = [], headers = [],
      headers_buffer = None\<rparr>"

text \<open>An application that answers every request with \<open>200 OK\<close> and the one chunk \<open>Hello\<close>.\<close>

definition hello_app :: "headers \<Rightarrow> handler \<Rightarrow> app_run" where
  "hello_app hdrs h =
     \<lparr>on_call = [StartResponse ''200 OK'' hdrs None], on_iter = [Yield ''Hello''], ready = 0\<rparr>"

section \<open>Properties of the response header collection\<close>

lemma get_all_delitem: "get_all (delitem hs n) n = []"
  by (induction hs) (simp_all add: get_all_def delitem_def Let_def)

lemma get_all_append: "get_all (xs @ ys) n = get_all xs n @ get_all ys n"
  by (simp add: get_all_def Let_def)

text \<open>
  Claim C10. After \<open>h[n] = v\<close>, \<open>get_all(n)\<close> is the one-element list \<open>[v]\<close>; the pairs
  whose lower-cased name differs from that of \<open>n\<close> are the same sequence as before, in the
  same order; and \<open>(n, v)\<close> is the last pair of the collection, all the pairs before it
  being exactly those kept ones.
\<close>

theorem setitem_get_all:
  "get_all (setitem h n v) n = [v]
   \<and> [kv \<leftarrow> setitem h n v. lower (fst kv) \<noteq> lower n] = [kv \<leftarrow> h. lower (fst kv) \<noteq> lower n]
   \<and> last (setitem h n v) = (n, v)
   \<and> butlast (setitem h n v) = [kv \<leftarrow> h. lower (fst kv) \<noteq> lower n]"
proof -
  have "get_all (setitem h n v) n = [v]"
    by (simp add: setitem_def get_all_append get_all_delitem) (simp add: get_all_def Let_def)
  moreover have "[kv \<leftarrow> setitem h n v. lower (fst kv) \<noteq> lower n]
      = [kv \<leftarrow> h. lower (fst kv) \<noteq> lower n]"
    by (simp add: setitem_def delitem_def Let_def)
  moreover have "last (setitem h n v) = (n, v)"
    by (simp add: setitem_def)
  moreover have "butlast (setitem h n v) = [kv \<leftarrow> h. lower (fst kv) \<noteq> lower n]"
    by (simp add: setitem_def delitem_def Let_def)
  ultimately show ?thesis by blast
qed

section \<open>Evaluating the definitions on examples\<close>

lemmas eval_defs = crlf_def CR_def LF_def TAB_def split_ws_def isspace_def startswith_def
  split_once_def py_int_def strip_def is_digit_def dec_value_def digit_val_def rstrip_chars_def
  lstrip_chars_def tuple_ge_def str_ge_def lower_def lower_char_def char_of_def bit_Suc_0_iff

lemmas parse_defs = parse_request_def new_handler_def default_request_version_def and_then_def
  parse_request_version_def parse_request_words_def parse_request_headers_def
  parse_request_connection_def parse_request_expect_def header_or_empty_def get_def
  parse_version_token_def parse_headers_def read_headers_def read_headers_loop.simps MAXLINE_def
  MAXHEADERS_def header_lines_def header_pair_def send_error_def log_error_def log_message_def
  responses_def BAD_REQUEST_def HTTP_VERSION_NOT_SUPPORTED_def REQUEST_HEADER_FILEDS_TOO_LARGE_def

section \<open>The keep-alive decision of parse\_request\<close>

lemma and_then_True:
  "and_then r f = (Inr True, h') \<Longrightarrow> \<exists>h1. r = (Inr True, h1) \<and> f h1 = (Inr True, h')"
  by (cases r) (auto simp: and_then_def split: sum.splits bool.splits)

lemma parse_request_version_True:
  assumes "parse_request_version ws h = (Inr True, h')"
  shows "protocol_version h' = protocol_version h \<and> int_max_str_digits h' = int_max_str_digits h
    \<and> (if length ws \<ge> 3
        then \<exists>vn b. parse_version_token (int_max_str_digits h) (last ws) = Inr (vn, b)
               \<and> request_version h' = last ws
               \<and> close_connection h' =
                   (\<not> (tuple_ge vn (1, 1) \<and> str_ge (protocol_version h) ''HTTP/1.1'')
                    \<and> close_connection h)
        else h' = h)"
proof (cases "length ws \<ge> 3")
  case False
  with assms show ?thesis by (simp add: parse_request_version_def)
next
  case True
  show ?thesis
  proof (cases "parse_version_token (int_max_str_digits h) (last ws)")
    case (Inl e)
    with assms True show ?thesis by (simp add: parse_request_version_def Let_def)
  next
    case (Inr p)
    obtain vn b where p: "p = (vn, b)" by (cases p)
    from assms True Inr p show ?thesis
      by (auto simp: parse_request_version_def Let_def split: if_splits)
  qed
qed

lemma parse_request_words_True:
  assumes "parse_request_words ws h = (Inr True, h')"
  shows "protocol_version h' = protocol_version h \<and> int_max_str_digits h' = int_max_str_digits h
    \<and> request_version h' = request_version h
    \<and> (length ws = 2 \<or> length ws = 3)
    \<and> close_connection h' = (if length ws = 2 then True else close_connection h)"
  using assms
  by (auto simp: parse_request_words_def Let_def split: if_splits)

lemma parse_request_headers_True:
  assumes "parse_request_headers parser h = (Inr True, h')"
  shows "protocol_version h' = protocol_version h \<and> int_max_str_digits h' = int_max_str_digits h
    \<and> request_version h' = request_version h \<and> close_connection h' = close_connection h"
  using assms
  by (auto simp: parse_request_headers_def split: prod.splits sum.splits exn.splits)

lemma parse_request_connection_fields:
  "protocol_version (parse_request_connection h) = protocol_version h
   \<and> request_version (parse_request_connection h) = request_version h
   \<and> headers (parse_request_connection h) = headers h
   \<and> close_connection (parse_request_connection h) =
       (if lower (header_or_empty h ''Connection'') = ''close'' then True
        else if lower (header_or_empty h ''Connection'') = ''keep-alive''
                \<and> str_ge (protocol_version h) ''HTTP/1.1'' then False
        else close_connection h)"
  by (simp add: parse_request_connection_def Let_def header_or_empty_def)

lemma handle_expect_100_fields:
  "handle_expect_100 h = (e, h') \<Longrightarrow>
     close_connection h' = close_connection h \<and> headers h' = headers h
     \<and> request_version h' = request_version h"
  by (auto simp: handle_expect_100_def end_headers_def send_response_only_def flush_headers_def Let_def
      split: if_splits option.splits)

lemma parse_request_expect_True:
  assumes "parse_request_expect h = (Inr True, h')"
  shows "close_connection h' = close_connection h \<and> headers h' = headers h
     \<and> request_version h' = request_version h"
  using assms
  by (auto simp: parse_request_expect_def Let_def split: if_splits prod.splits option.splits
      dest: handle_expect_100_fields)

lemma parse_version_token_default:
  "parse_version_token lim ''HTTP/0.9'' = Inr ((0, 9), ''0.9'')"
  by (auto simp: parse_version_token_def startswith_def split_once_def py_int_def strip_def
      isspace_def is_digit_def dec_value_def digit_val_def Let_def)

text \<open>
  Claim C5, as the code has it. When \<open>parse_request\<close> succeeds, the version it settled on
  reads as a pair \<open>vn\<close> of integers, and \<open>close_connection\<close> is: true when the value of
  the \<open>Connection\<close> header is \<open>close\<close> in any letter case; otherwise false when that
  value is \<open>keep-alive\<close> and the server's \<open>protocol_version\<close> is at least the string
  \<open>HTTP/1.1\<close>; otherwise the default, which is false exactly when \<open>vn\<close> is at least
  \<open>(1, 1)\<close> and the server's \<open>protocol_version\<close> is at least \<open>HTTP/1.1\<close>. The test
  for keep-alive reads the server's version, not the request's.
\<close>

theorem parse_request_close_connection:
  assumes "parse_request parser h = (Inr True, h')"
  shows "\<exists>vn b. parse_version_token (int_max_str_digits h) (request_version h') = Inr (vn, b)
     \<and> close_connection h' =
         (if lower (header_or_empty h' ''Connection'') = ''close'' then True
          else if lower (header_or_empty h' ''Connection'') = ''keep-alive''
                  \<and> str_ge (protocol_version h) ''HTTP/1.1'' then False
          else \<not> (tuple_ge vn (1, 1) \<and> str_ge (protocol_version h) ''HTTP/1.1''))"
proof -
  define h1 where "h1 = h\<lparr>command := None, request_version := default_request_version,
                  close_connection := True\<rparr>"
  define h2 where "h2 = h1\<lparr>requestline := rstrip_chars crlf (raw_requestline h1)\<rparr>"
  define ws where "ws = split_ws (requestline h2)"
  have h2f: "protocol_version h2 = protocol_version h" "int_max_str_digits h2 = int_max_str_digits h"
    "close_connection h2" "request_version h2 = ''HTTP/0.9''"
    by (simp_all add: h2_def h1_def default_request_version_def)
  from assms have "(if length ws = 0 then (Inr False, h2)
         else and_then (and_then (and_then (parse_request_version ws h2)
             (parse_request_words ws))
             (parse_request_headers parser))
             (\<lambda>h. parse_request_expect (parse_request_connection h))) = (Inr True, h')"
    unfolding parse_request_def Let_def h1_def [symmetric] h2_def [symmetric] ws_def [symmetric] .
  then have chain: "and_then (and_then (and_then (parse_request_version ws h2)
             (parse_request_words ws))
             (parse_request_headers parser))
             (\<lambda>h. parse_request_expect (parse_request_connection h)) = (Inr True, h')"
    by (simp split: if_splits)
  from and_then_True [OF chain] obtain hc where
    c3: "and_then (and_then (parse_request_version ws h2) (parse_request_words ws))
           (parse_request_headers parser) = (Inr True, hc)"
    and x: "parse_request_expect (parse_request_connection hc) = (Inr True, h')" by blast
  from and_then_True [OF c3] obtain hb where
    c2: "and_then (parse_request_version ws h2) (parse_request_words ws) = (Inr True, hb)"
    and p: "parse_request_headers parser hb = (Inr True, hc)" by blast
  from and_then_True [OF c2] obtain ha where
    v: "parse_request_version ws h2 = (Inr True, ha)"
    and w: "parse_request_words ws ha = (Inr True, hb)" by blast
  note V = parse_request_version_True [OF v]
  note W = parse_request_words_True [OF w]
  note P = parse_request_headers_True [OF p]
  note C = parse_request_connection_fields [of hc]
  note X = parse_request_expect_True [OF x]
  have hdr: "header_or_empty h' ''Connection'' = header_or_empty hc ''Connection''"
    using X C by (simp add: header_or_empty_def)
  have pv: "protocol_version hc = protocol_version h" using V W P h2f by simp
  have rv: "request_version h' = request_version ha" using X C P W by simp
  have cc: "close_connection h' =
       (if lower (header_or_empty h' ''Connection'') = ''close'' then True
        else if lower (header_or_empty h' ''Connection'') = ''keep-alive''
                \<and> str_ge (protocol_version h) ''HTTP/1.1'' then False
        else close_connection hb)"
    using X C P hdr pv by simp
  show ?thesis
  proof (cases "length ws \<ge> 3")
    case True
    with V h2f obtain vn b where
      t: "parse_version_token (int_max_str_digits h) (last ws) = Inr (vn, b)"
      and r: "request_version ha = last ws"
      and c: "close_connection ha = (\<not> (tuple_ge vn (1, 1) \<and> str_ge (protocol_version h) ''HTTP/1.1''))"
      by (auto simp del: not_less)
    from True W have "close_connection hb = close_connection ha" by auto
    with t r c rv cc show ?thesis by auto
  next
    case False
    with V have "ha = h2" by simp
    moreover from False W have "close_connection hb" by auto
    ultimately show ?thesis
      using rv cc h2f by (simp add: parse_version_token_default tuple_ge_def)
  qed
qed


text \<open>
  The theorem at the request \<open>GET / HTTP/1.1\<close> with the header \<open>Connection: close\<close>, on
  a server with \<open>HTTP/1.1\<close>: parsing succeeds and the connection will be closed.
\<close>

lemma parse_request_close_example:
  "parse_request header_lines
     ((new_handler ''HTTP/1.1'' (''Connection: close'' @ crlf @ crlf))
        \<lparr>raw_requestline := ''GET / HTTP/1.1'' @ crlf\<rparr>)
   = (Inr True,
      (new_handler ''HTTP/1.1'' [])
        \<lparr>raw_requestline := ''GET / HTTP/1.1'' @ crlf, requestline := ''GET / HTTP/1.1'',
         request_version := ''HTTP/1.1'', command := Some ''GET'', path := ''/'',
         headers := [(''Connection'', ''close'')], close_connection := True\<rparr>)"
  by (simp add: parse_defs eval_defs Let_def)

theorem parse_request_close_connection_witness:
  "parse_request header_lines
     ((new_handler ''HTTP/1.1'' (''Connection: close'' @ crlf @ crlf))
        \<lparr>raw_requestline := ''GET / HTTP/1.1'' @ crlf\<rparr>)
   = (Inr True,
      (new_handler ''HTTP/1.1'' [])
        \<lparr>raw_requestline := ''GET / HTTP/1.1'' @ crlf, requestline := ''GET / HTTP/1.1'',
         request_version := ''HTTP/1.1'', command := Some ''GET'', path := ''/'',
         headers := [(''Connection'', ''close'')], close_connection := True\<rparr>)
   \<and> (\<exists>vn b. parse_version_token 4300 ''HTTP/1.1'' = Inr (vn, b) \<and> tuple_ge vn (1, 1))"
proof -
  note e = parse_request_close_example
  from parse_request_close_connection [OF e]
  have "\<exists>vn b. parse_version_token 4300 ''HTTP/1.1'' = Inr (vn, b)"
    by (auto simp: new_handler_def)
  moreover have "parse_version_token 4300 ''HTTP/1.1'' = Inr ((1, 1), ''1.1'')"
    by (simp add: parse_version_token_def eval_defs Let_def)
  ultimately show ?thesis using e by (simp add: tuple_ge_def)
qed

text \<open>
  The claim as stated fails for a request of version 1.1 that asks for \<open>keep-alive\<close> on a
  server whose \<open>protocol_version\<close> is \<open>HTTP/1.0\<close>: the connection is closed all the same.
\<close>

theorem parse_request_keep_alive_counterexample:
  "parse_request header_lines
     ((new_handler ''HTTP/1.0'' (''Connection: keep-alive'' @ crlf @ crlf))
        \<lparr>raw_requestline := ''GET / HTTP/1.1'' @ crlf\<rparr>)
   = (Inr True,
      (new_handler ''HTTP/1.0'' [])
        \<lparr>raw_requestline := ''GET / HTTP/1.1'' @ crlf, requestline := ''GET / HTTP/1.1'',
         request_version := ''HTTP/1.1'', command := Some ''GET'', path := ''/'',
         headers := [(''Connection'', ''keep-alive'')], close_connection := True\<rparr>)"
  by (simp add: parse_defs eval_defs Let_def)

end
